theory Spec2Isabelle
  imports Main
begin

section \<open>Python values used by \<^verbatim>\<open>utils.py\<close>\<close>

text \<open>
  A Python \<^verbatim>\<open>str\<close> is a sequence of Unicode code points, a \<^verbatim>\<open>bytes\<close> or
  \<^verbatim>\<open>bytearray\<close> object a sequence of bytes. Code points are natural numbers (below
  \<open>0x110000\<close> in a \<^verbatim>\<open>str\<close>), bytes are natural numbers below 256: what produces
  bytes here keeps them below 256, and \<^verbatim>\<open>bytearray.append\<close> checks the range as
  Python does. \<open>lit\<close> turns an ASCII literal of the source into the \<^verbatim>\<open>str\<close> (or the
  \<^verbatim>\<open>bytes\<close>) it denotes, \<open>ch\<close> one character into its code.
\<close>

type_synonym pystr = "nat list"
type_synonym pybytes = "nat list"

definition lit :: "string \<Rightarrow> pystr" where
  "lit s = map of_char s"

definition ch :: "char \<Rightarrow> nat" where
  "ch c = of_char c"

definition CR :: nat where "CR = 13"
definition LF :: nat where "LF = 10"

definition crlf :: pystr where
  "crlf = [CR, LF]"

text \<open>
  The values that the functions of the module return besides mappings: a \<^verbatim>\<open>str\<close>,
  \<^verbatim>\<open>None\<close>, and the empty dictionary \<^verbatim>\<open>{}\<close> that \<^verbatim>\<open>get_request_body\<close> returns.
\<close>

datatype pyval = Str pystr | PyNone | EmptyDict

text \<open>The exceptions that the functions of the module can raise.\<close>

datatype error = AttributeError | TypeError | ValueError | KeyError
  | UnicodeEncodeError | UnicodeDecodeError

subsection \<open>\<^verbatim>\<open>str.split(sep)\<close> and \<^verbatim>\<open>bytes.split(sep)\<close>\<close>

text \<open>
  \<^verbatim>\<open>s.split(sep)\<close> scans \<open>s\<close> from the left and cuts at every occurrence of \<open>sep\<close>
  that does not overlap the preceding one; the result always has at least one
  element. Python raises \<^verbatim>\<open>ValueError\<close> for an empty separator; every call of the
  module passes a non-empty constant, and for an empty \<open>sep\<close> the function below
  never cuts.
\<close>

function split :: "'a list \<Rightarrow> 'a list \<Rightarrow> 'a list list" where
  "split sep [] = [[]]"
| "split sep (x # xs) =
     (if sep \<noteq> [] \<and> take (length sep) (x # xs) = sep
      then [] # split sep (drop (length sep) (x # xs))
      else (case split sep xs of
              [] \<Rightarrow> [[x]]
            | h # t \<Rightarrow> (x # h) # t))"
  by pat_completeness auto
termination
  by (relation "measure (\<lambda>(sep, s). length s)") auto

subsection \<open>The fragment of \<^verbatim>\<open>re\<close> that the module uses\<close>

text \<open>
  The patterns of the module are built from character sets, concatenation, the
  greedy repetitions \<^verbatim>\<open>*\<close> and \<^verbatim>\<open>+\<close>, capturing groups and the anchor \<^verbatim>\<open>^\<close>.
  The semantics is that of CPython's \<^verbatim>\<open>re\<close> on \<^verbatim>\<open>str\<close> patterns without flags:
  \<^verbatim>\<open>.\<close> is any character but the line feed, \<^verbatim>\<open>\s\<close> is Unicode white space,
  \<^verbatim>\<open>^\<close> holds at index 0 only, a group inside a repetition keeps the span of its
  last iteration.
\<close>

datatype cset = CChar nat | CRange nat nat | CSpace | CDot

datatype regex =
    Atom "cset list"
  | Bol
  | Seq regex regex
  | Star regex
  | Group nat regex

text \<open>\<^verbatim>\<open>str.isspace\<close> on one code point, which is what \<^verbatim>\<open>\s\<close> matches.\<close>

definition is_space :: "nat \<Rightarrow> bool" where
  "is_space c \<longleftrightarrow>
     (9 \<le> c \<and> c \<le> 13) \<or> (28 \<le> c \<and> c \<le> 32) \<or> c = 133 \<or> c = 160 \<or> c = 5760
     \<or> (8192 \<le> c \<and> c \<le> 8202) \<or> c = 8232 \<or> c = 8233 \<or> c = 8239 \<or> c = 8287
     \<or> c = 12288"

fun in_cset :: "nat \<Rightarrow> cset \<Rightarrow> bool" where
  "in_cset c (CChar d) = (c = d)"
| "in_cset c (CRange lo hi) = (lo \<le> c \<and> c \<le> hi)"
| "in_cset c CSpace = is_space c"
| "in_cset c CDot = (c \<noteq> LF)"

definition Plus :: "regex \<Rightarrow> regex" where
  "Plus r = Seq r (Star r)"

type_synonym caps = "nat \<rightharpoonup> nat \<times> nat"

text \<open>
  A state of the matcher is the index it has reached, the rest of the string from
  that index on, and the spans of the groups matched so far.
  \<open>re_match r (i, s, c)\<close> lists, in the order in which the backtracking matcher
  tries them, the states in which a match of \<open>r\<close> that starts in state \<open>(i, s, c)\<close>
  can end. A greedy repetition tries one more iteration before it tries to stop.
  An iteration that consumes nothing ends the repetition (no pattern of the module
  has one).
\<close>

type_synonym mstate = "nat \<times> pystr \<times> caps"

function re_match :: "regex \<Rightarrow> mstate \<Rightarrow> mstate list" where
  "re_match (Atom cs) (i, s, c) =
     (case s of
        [] \<Rightarrow> []
      | x # xs \<Rightarrow> if list_ex (in_cset x) cs then [(Suc i, xs, c)] else [])"
| "re_match Bol (i, s, c) = (if i = 0 then [(i, s, c)] else [])"
| "re_match (Seq a b) (i, s, c) = concat (map (re_match b) (re_match a (i, s, c)))"
| "re_match (Group n r) (i, s, c) =
     map (\<lambda>(j, s', c'). (j, s', c'(n \<mapsto> (i, j)))) (re_match r (i, s, c))"
| "re_match (Star r) (i, s, c) =
     concat (map (\<lambda>(j, s', c'). if length s' < length s then re_match (Star r) (j, s', c') else [])
                 (re_match r (i, s, c)))
     @ [(i, s, c)]"
  by pat_completeness auto
termination
  by (relation "measures [\<lambda>(r, i, s, c). size r, \<lambda>(r, i, s, c). length s]") auto

text \<open>
  \<^verbatim>\<open>re.search(pattern, string)\<close>: the first match at the leftmost index that has
  one (the end of the string included), or \<^verbatim>\<open>None\<close>. A match object is represented
  by its captures.
\<close>

fun search_from :: "regex \<Rightarrow> nat \<Rightarrow> pystr \<Rightarrow> caps option" where
  "search_from r i [] =
     (case re_match r (i, [], Map.empty) of
        (j, s', c) # _ \<Rightarrow> Some c
      | [] \<Rightarrow> None)"
| "search_from r i (x # xs) =
     (case re_match r (i, x # xs, Map.empty) of
        (j, s', c) # _ \<Rightarrow> Some c
      | [] \<Rightarrow> search_from r (Suc i) xs)"

definition re_search :: "regex \<Rightarrow> pystr \<Rightarrow> caps option" where
  "re_search r s = search_from r 0 s"

declare re_match.simps [simp del]
declare search_from.simps [simp del]

text \<open>\<^verbatim>\<open>match.group(n)\<close>: the text of group \<open>n\<close>, or \<^verbatim>\<open>None\<close> when the group took no part.\<close>

definition group :: "pystr \<Rightarrow> caps \<Rightarrow> nat \<Rightarrow> pyval" where
  "group s m n = (case m n of None \<Rightarrow> PyNone | Some (i, j) \<Rightarrow> Str (take (j - i) (drop i s)))"

section \<open>Request parsing\<close>

text \<open>The four patterns of the module, written as the source writes them.\<close>

definition upper :: regex where
  \<comment> \<open>\<^verbatim>\<open>[A-Z]\<close>\<close>
  "upper = Atom [CRange (ch CHR ''A'') (ch CHR ''Z'')]"

definition pat_method :: regex where
  \<comment> \<open>\<^verbatim>\<open>^([A-Z]+)\<close>\<close>
  "pat_method = Seq Bol (Group 1 (Plus upper))"

definition pat_path :: regex where
  \<comment> \<open>\<^verbatim>\<open>^[A-Z]+\s+(/[-a-zA-Z0-9_.]*)*\<close>\<close>
  "pat_path =
     Seq Bol (Seq (Plus upper) (Seq (Plus (Atom [CSpace]))
       (Star (Group 1 (Seq (Atom [CChar (ch CHR ''/'')])
          (Star (Atom [CChar (ch CHR ''-''), CRange (ch CHR ''a'') (ch CHR ''z''),
                       CRange (ch CHR ''A'') (ch CHR ''Z''), CRange (ch CHR ''0'') (ch CHR ''9''),
                       CChar (ch CHR ''_''), CChar (ch CHR ''.'')])))))))"

definition pat_query :: regex where
  \<comment> \<open>\<^verbatim>\<open>\?(.+)\s\<close>\<close>
  "pat_query = Seq (Atom [CChar (ch CHR ''?'')]) (Seq (Group 1 (Plus (Atom [CDot]))) (Atom [CSpace]))"

definition pat_body :: regex where
  \<comment> \<open>\<^verbatim>\<open>\r\n\r\n(.+)\<close>, the first four characters being a carriage return, a line
      feed, a carriage return and a line feed\<close>
  "pat_body =
     Seq (Atom [CChar CR]) (Seq (Atom [CChar LF]) (Seq (Atom [CChar CR]) (Seq (Atom [CChar LF])
       (Group 1 (Plus (Atom [CDot]))))))"

text \<open>
  \<^verbatim>\<open>lines[0]\<close> of \<^verbatim>\<open>request.split("\r\n")\<close>; the list is never empty, so the index
  is always in range.
\<close>

definition first_line :: "pystr \<Rightarrow> pystr" where
  "first_line request = hd (split crlf request)"

text \<open>
  \<^verbatim>\<open>re.search(...).group(1)\<close> raises \<^verbatim>\<open>AttributeError\<close> when the search returns
  \<^verbatim>\<open>None\<close>; \<^verbatim>\<open>group(1)\<close> itself is \<^verbatim>\<open>None\<close> when the group took no part in the match.
\<close>

definition get_request_method :: "pystr \<Rightarrow> error + pyval" where
  "get_request_method request =
     (let line = first_line request in
      case re_search pat_method line of
        None \<Rightarrow> Inl AttributeError
      | Some m \<Rightarrow> Inr (group line m 1))"

definition get_request_path :: "pystr \<Rightarrow> error + pyval" where
  "get_request_path request =
     (let line = first_line request in
      case re_search pat_path line of
        None \<Rightarrow> Inl AttributeError
      | Some m \<Rightarrow> Inr (group line m 1))"

definition get_request_query_string :: "pystr \<Rightarrow> pyval" where
  "get_request_query_string request =
     (let line = first_line request in
      case re_search pat_query line of
        None \<Rightarrow> Str []
      | Some m \<Rightarrow> group line m 1)"

text \<open>
  The body of the loop of \<^verbatim>\<open>parse_query_string\<close>: the key and the value of one
  token. \<^verbatim>\<open>param[0]\<close> exists for every token, \<^verbatim>\<open>param[1]\<close> is read only when
  the list has another length than 1, that is at least 2.
\<close>

definition query_param :: "pystr \<Rightarrow> pystr \<times> pystr" where
  "query_param param_string =
     (let param = split (lit ''='') param_string;
          key = param ! 0;
          val = (if length param = 1 then [] else param ! 1)
      in (key, val))"

text \<open>
  A dictionary is a map; \<^verbatim>\<open>query_params[key] = value\<close> overwrites. The argument
  is whatever the caller passes: \<^verbatim>\<open>len\<close> of \<^verbatim>\<open>{}\<close> is 0, \<^verbatim>\<open>len(None)\<close> raises
  \<^verbatim>\<open>TypeError\<close>.
\<close>

type_synonym dict = "pystr \<rightharpoonup> pystr"

definition parse_query_string :: "pyval \<Rightarrow> error + dict" where
  "parse_query_string query_string =
     (case query_string of
        PyNone \<Rightarrow> Inl TypeError
      | EmptyDict \<Rightarrow> Inr Map.empty
      | Str qs \<Rightarrow>
          if length qs = 0 then Inr Map.empty
          else Inr (fold (\<lambda>param_string query_params.
                            query_params(fst (query_param param_string) \<mapsto>
                                         snd (query_param param_string)))
                         (split (lit ''&'') qs) Map.empty))"

definition get_request_query_params :: "pystr \<Rightarrow> error + dict" where
  "get_request_query_params request = parse_query_string (get_request_query_string request)"

definition get_request_body :: "pystr \<Rightarrow> pyval" where
  "get_request_body request =
     (case re_search pat_body request of
        None \<Rightarrow> EmptyDict
      | Some m \<Rightarrow> group request m 1)"

text \<open>The result is \<^verbatim>\<open>None\<close> (here \<open>Inr None\<close>) or a dictionary.\<close>

definition get_request_post_params :: "pystr \<Rightarrow> pyval \<Rightarrow> error + dict option" where
  "get_request_post_params request expected_method =
     (case get_request_method request of
        Inl e \<Rightarrow> Inl e
      | Inr request_method \<Rightarrow>
          if request_method \<noteq> expected_method then Inr None
          else (case parse_query_string (get_request_body request) of
                  Inl e \<Rightarrow> Inl e
                | Inr d \<Rightarrow> Inr (Some d)))"

definition default_expected_method :: pyval where
  "default_expected_method = Str (lit ''POST'')"

section \<open>Response formatting\<close>

text \<open>\<^verbatim>\<open>str(n)\<close> for an integer: its decimal digits, with a minus sign when negative.\<close>

function str_nat :: "nat \<Rightarrow> pystr" where
  "str_nat n = (if n < 10 then [48 + n] else str_nat (n div 10) @ [48 + n mod 10])"
  by pat_completeness auto
termination
  by (relation "measure (\<lambda>n. n)") auto

declare str_nat.simps [simp del]

definition str_int :: "int \<Rightarrow> pystr" where
  "str_int i = (if i < 0 then ch CHR ''-'' # str_nat (nat (- i)) else str_nat (nat i))"

text \<open>The table \<^verbatim>\<open>HTTP_CODES\<close>, in the order of the source.\<close>

definition http_code_table :: "(int \<times> string) list" where
  "http_code_table =
    [
     (100, ''Continue''),
     (101, ''Switching protocols''),
     (102, ''Processing''),
     (200, ''Ok''),
     (201, ''Created''),
     (202, ''Accepted''),
     (203, ''Non authoritative information''),
     (204, ''No content''),
     (205, ''Reset content''),
     (206, ''Partial content''),
     (207, ''Multi status''),
     (208, ''Already reported''),
     (226, ''Im used''),
     (300, ''Multiple choices''),
     (301, ''Moved permanently''),
     (302, ''Found''),
     (303, ''See other''),
     (304, ''Not modified''),
     (305, ''Use proxy''),
     (307, ''Temporary redirect''),
     (308, ''Permanent redirect''),
     (400, ''Bad request''),
     (401, ''Unauthorized''),
     (402, ''Payment required''),
     (403, ''Forbidden''),
     (404, ''Not found''),
     (405, ''Method not allowed''),
     (406, ''Not acceptable''),
     (407, ''Proxy authentication required''),
     (408, ''Request timeout''),
     (409, ''Conflict''),
     (410, ''Gone''),
     (411, ''Length required''),
     (412, ''Precondition failed''),
     (413, ''Request entity too large''),
     (414, ''Request uri too long''),
     (415, ''Unsupported media type''),
     (416, ''Request range not satisfiable''),
     (417, ''Expectation failed''),
     (418, ''I am a teapot''),
     (422, ''Unprocessable entity''),
     (423, ''Locked''),
     (424, ''Failed dependency''),
     (426, ''Upgrade required''),
     (428, ''Precondition required''),
     (429, ''Too many requests''),
     (431, ''Request header fields too large''),
     (500, ''Internal server error''),
     (501, ''Not implemented''),
     (502, ''Bad gateway''),
     (503, ''Service unavailable''),
     (504, ''Gateway timeout''),
     (505, ''Http version not supported''),
     (506, ''Variant also negotiates''),
     (507, ''Insufficient storage''),
     (508, ''Loop detected''),
     (510, ''Not extended''),
     (511, ''Network authentication required'')
    ]"

definition HTTP_CODES :: "int \<rightharpoonup> pystr" where
  "HTTP_CODES = map_of (map (\<lambda>(code, phrase). (code, lit phrase)) http_code_table)"

text \<open>
  The server object is used through \<^verbatim>\<open>send\<close> and \<^verbatim>\<open>send_binary\<close> only. It is
  modelled by what has been handed to these two operations so far, in order; the
  operations themselves do not fail here.
\<close>

datatype event = Send pystr | SendBinary pybytes

type_synonym transport = "event list"

definition send :: "transport \<Rightarrow> pystr \<Rightarrow> transport" where
  "send server text = server @ [Send text]"

definition send_binary :: "transport \<Rightarrow> pybytes \<Rightarrow> transport" where
  "send_binary server data = server @ [SendBinary data]"

text \<open>
  The argument of the first \<^verbatim>\<open>server.send\<close> is evaluated before the call:
  \<^verbatim>\<open>HTTP_CODES.get(http_code)\<close> is \<^verbatim>\<open>None\<close> for a code that is not a key, and adding
  \<^verbatim>\<open>None\<close> to a \<^verbatim>\<open>str\<close> raises \<^verbatim>\<open>TypeError\<close>. The result pairs the exception (if
  any) with the state of the transport.
\<close>

definition send_response ::
  "transport \<Rightarrow> pystr \<Rightarrow> int \<Rightarrow> pystr \<Rightarrow> pystr list option \<Rightarrow> error option \<times> transport" where
  "send_response server response http_code content_type extend_headers =
     (case HTTP_CODES http_code of
        None \<Rightarrow> (Some TypeError, server)
      | Some reason \<Rightarrow>
          (let s1 = send server (lit ''HTTP/1.0 '' @ str_int http_code @ lit '' '' @ reason @ crlf);
               s2 = send s1 (lit ''Content-Type:'' @ content_type @ crlf);
               s3 = (case extend_headers of
                       None \<Rightarrow> s2
                     | Some headers \<Rightarrow> fold (\<lambda>header s. send s (header @ crlf)) headers s2);
               s4 = send s3 crlf
           in (None, send s4 response)))"

definition send_binary_response ::
  "transport \<Rightarrow> pybytes \<Rightarrow> int \<Rightarrow> int \<Rightarrow> pystr \<Rightarrow> pystr list option
     \<Rightarrow> error option \<times> transport" where
  "send_binary_response server response file_size http_code content_type extend_headers =
     (case HTTP_CODES http_code of
        None \<Rightarrow> (Some TypeError, server)
      | Some reason \<Rightarrow>
          (let s1 = send server (lit ''HTTP/1.0 '' @ str_int http_code @ lit '' '' @ reason @ crlf);
               s2 = send s1 (lit ''Content-Type:'' @ content_type @ crlf);
               s3 = send s2 (lit ''Content-Length:'' @ str_int file_size @ crlf);
               s4 = (case extend_headers of
                       None \<Rightarrow> s3
                     | Some headers \<Rightarrow> fold (\<lambda>header s. send s (header @ crlf)) headers s3);
               s5 = send s4 crlf
           in (None, send_binary s5 response)))"

text \<open>The default values of the optional parameters.\<close>

definition default_http_code :: int where
  "default_http_code = 200"

definition default_content_type :: pystr where
  "default_content_type = lit ''text/html''"

definition default_binary_content_type :: pystr where
  "default_binary_content_type = lit ''application/octet-stream''"

section \<open>Percent decoding\<close>

subsection \<open>\<^verbatim>\<open>str.encode("utf-8")\<close> and \<^verbatim>\<open>bytes.decode("utf-8")\<close>\<close>

text \<open>
  Encoding fails on a surrogate (and on a number that is no code point); decoding
  is strict: it refuses overlong forms, surrogates, values above \<open>0x10FFFF\<close> and
  truncated or stray continuation bytes.
\<close>

definition utf8_encode_cp :: "nat \<Rightarrow> error + pybytes" where
  "utf8_encode_cp c =
     (if c < 0x80 then Inr [c]
      else if c < 0x800 then Inr [0xC0 + c div 64, 0x80 + c mod 64]
      else if c < 0x10000 then
        (if 0xD800 \<le> c \<and> c \<le> 0xDFFF then Inl UnicodeEncodeError
         else Inr [0xE0 + c div 4096, 0x80 + c div 64 mod 64, 0x80 + c mod 64])
      else if c < 0x110000 then
        Inr [0xF0 + c div 262144, 0x80 + c div 4096 mod 64, 0x80 + c div 64 mod 64,
             0x80 + c mod 64]
      else Inl UnicodeEncodeError)"

fun utf8_encode :: "pystr \<Rightarrow> error + pybytes" where
  "utf8_encode [] = Inr []"
| "utf8_encode (c # cs) =
     (case utf8_encode_cp c of
        Inl e \<Rightarrow> Inl e
      | Inr bs \<Rightarrow> (case utf8_encode cs of Inl e \<Rightarrow> Inl e | Inr r \<Rightarrow> Inr (bs @ r)))"

definition cont :: "nat \<Rightarrow> bool" where
  "cont b \<longleftrightarrow> 0x80 \<le> b \<and> b \<le> 0xBF"

definition cons_ok :: "nat \<Rightarrow> error + pystr \<Rightarrow> error + pystr" where
  "cons_ok c r = (case r of Inl e \<Rightarrow> Inl e | Inr cs \<Rightarrow> Inr (c # cs))"

fun utf8_decode :: "pybytes \<Rightarrow> error + pystr" where
  "utf8_decode [] = Inr []"
| "utf8_decode (b # bs) =
     (if b < 0x80 then cons_ok b (utf8_decode bs)
      else if 0xC2 \<le> b \<and> b \<le> 0xDF then
        (case bs of
           b1 # r \<Rightarrow>
             if cont b1 then cons_ok ((b - 0xC0) * 64 + (b1 - 0x80)) (utf8_decode r)
             else Inl UnicodeDecodeError
         | _ \<Rightarrow> Inl UnicodeDecodeError)
      else if 0xE0 \<le> b \<and> b \<le> 0xEF then
        (case bs of
           b1 # b2 # r \<Rightarrow>
             if (if b = 0xE0 then 0xA0 \<le> b1 \<and> b1 \<le> 0xBF
                 else if b = 0xED then 0x80 \<le> b1 \<and> b1 \<le> 0x9F
                 else cont b1) \<and> cont b2
             then cons_ok ((b - 0xE0) * 4096 + (b1 - 0x80) * 64 + (b2 - 0x80)) (utf8_decode r)
             else Inl UnicodeDecodeError
         | _ \<Rightarrow> Inl UnicodeDecodeError)
      else if 0xF0 \<le> b \<and> b \<le> 0xF4 then
        (case bs of
           b1 # b2 # b3 # r \<Rightarrow>
             if (if b = 0xF0 then 0x90 \<le> b1 \<and> b1 \<le> 0xBF
                 else if b = 0xF4 then 0x80 \<le> b1 \<and> b1 \<le> 0x8F
                 else cont b1) \<and> cont b2 \<and> cont b3
             then cons_ok ((b - 0xF0) * 262144 + (b1 - 0x80) * 4096 + (b2 - 0x80) * 64
                           + (b3 - 0x80)) (utf8_decode r)
             else Inl UnicodeDecodeError
         | _ \<Rightarrow> Inl UnicodeDecodeError)
      else Inl UnicodeDecodeError)"

subsection \<open>\<^verbatim>\<open>int(b, 16)\<close> on a \<^verbatim>\<open>bytes\<close> object\<close>

text \<open>
  CPython skips white space on both sides, takes one sign, skips the prefix
  \<^verbatim>\<open>0x\<close> or \<^verbatim>\<open>0X\<close> and one underscore after it, and then wants a non-empty run of
  hexadecimal digits in which single underscores may stand between digits.
  Everything else raises \<^verbatim>\<open>ValueError\<close>.
\<close>

definition is_bspace :: "nat \<Rightarrow> bool" where
  "is_bspace b \<longleftrightarrow> b = 32 \<or> (9 \<le> b \<and> b \<le> 13)"

definition hex_digit :: "nat \<Rightarrow> nat option" where
  "hex_digit c =
     (if 48 \<le> c \<and> c \<le> 57 then Some (c - 48)
      else if 97 \<le> c \<and> c \<le> 102 then Some (c - 87)
      else if 65 \<le> c \<and> c \<le> 70 then Some (c - 55)
      else None)"

definition in_number :: "nat \<Rightarrow> bool" where
  "in_number c \<longleftrightarrow> c = 95 \<or> hex_digit c \<noteq> None"

fun double_underscore :: "pybytes \<Rightarrow> bool" where
  "double_underscore (a # b # r) = ((a = 95 \<and> b = 95) \<or> double_underscore (b # r))"
| "double_underscore _ = False"

definition py_int16 :: "pybytes \<Rightarrow> error + int" where
  "py_int16 bs =
     (let t = dropWhile is_bspace bs;
          neg = (t \<noteq> [] \<and> hd t = 45);
          u = (if t \<noteq> [] \<and> (hd t = 45 \<or> hd t = 43) then tl t else t);
          v = (if 2 \<le> length u \<and> u ! 0 = 48 \<and> (u ! 1 = 120 \<or> u ! 1 = 88)
               then (if 3 \<le> length u \<and> u ! 2 = 95 then drop 3 u else drop 2 u)
               else u);
          body = takeWhile in_number v;
          rest = dropWhile is_bspace (dropWhile in_number v)
      in if body = [] \<or> hd body = 95 \<or> last body = 95 \<or> double_underscore body \<or> rest \<noteq> []
         then Inl ValueError
         else Inr ((if neg then - 1 else 1) *
                   int (foldl (\<lambda>a d. 16 * a + d) 0
                          (map (\<lambda>c. the (hex_digit c)) (filter (\<lambda>c. c \<noteq> 95) body)))))"

text \<open>\<^verbatim>\<open>bytearray.append(v)\<close> wants \<open>v\<close> in \<^verbatim>\<open>range(256)\<close>.\<close>

definition bytearray_append :: "pybytes \<Rightarrow> int \<Rightarrow> error + pybytes" where
  "bytearray_append res v = (if 0 \<le> v \<and> v < 256 then Inr (res @ [nat v]) else Inl ValueError)"

subsection \<open>\<^verbatim>\<open>unquote\<close>\<close>

text \<open>
  One round of the loop. The \<^verbatim>\<open>try\<close> block can raise \<^verbatim>\<open>ValueError\<close> only, from
  \<^verbatim>\<open>int\<close> or from \<^verbatim>\<open>append\<close>; the handler is for \<^verbatim>\<open>KeyError\<close>, so the exception
  leaves the function. (The handler itself would raise \<^verbatim>\<open>TypeError\<close>, as
  \<^verbatim>\<open>append\<close> takes an integer and is given \<^verbatim>\<open>b"%"\<close>.)
\<close>

definition unquote_item :: "pybytes \<Rightarrow> pybytes \<Rightarrow> error + pybytes" where
  "unquote_item item res =
     (case (case py_int16 (take 2 item) of
              Inl e \<Rightarrow> Inl e
            | Inr v \<Rightarrow>
                (case bytearray_append res v of
                   Inl e \<Rightarrow> Inl e
                 | Inr res' \<Rightarrow> Inr (res' @ drop 2 item))) of
        Inl e \<Rightarrow> if e = KeyError then Inl TypeError else Inl e
      | Inr res' \<Rightarrow> Inr res')"

fun unquote_items :: "pybytes list \<Rightarrow> pybytes \<Rightarrow> error + pybytes" where
  "unquote_items [] res = Inr res"
| "unquote_items (item # items) res =
     (case unquote_item item res of
        Inl e \<Rightarrow> Inl e
      | Inr res' \<Rightarrow> unquote_items items res')"

text \<open>
  The argument is a \<^verbatim>\<open>str\<close>, so it is encoded first; \<^verbatim>\<open>bits[0]\<close> and \<^verbatim>\<open>bits[1:]\<close>
  exist, as \<^verbatim>\<open>split\<close> returns at least one piece.
\<close>

definition unquote :: "pystr \<Rightarrow> error + pystr" where
  "unquote string =
     (if string = [] then Inr []
      else
        (case utf8_encode string of
           Inl e \<Rightarrow> Inl e
         | Inr bytes \<Rightarrow>
             (let bits = split [ch CHR ''%''] bytes in
              if length bits = 1 then utf8_decode bytes
              else
                (case unquote_items (tl bits) (hd bits) of
                   Inl e \<Rightarrow> Inl e
                 | Inr res \<Rightarrow> utf8_decode res))))"

section \<open>Vocabulary of the specification\<close>

text \<open>
  The specification speaks of the first blank-line separator of a buffer.
  \<open>find_sub sep s\<close> is the index of the first occurrence of \<open>sep\<close> in \<open>s\<close>, as
  \<^verbatim>\<open>s.find(sep)\<close> computes it, or \<open>None\<close> when there is none.
\<close>

definition starts_with :: "'a list \<Rightarrow> 'a list \<Rightarrow> bool" where
  "starts_with sep s \<longleftrightarrow> take (length sep) s = sep"

fun find_sub :: "'a list \<Rightarrow> 'a list \<Rightarrow> nat option" where
  "find_sub sep [] = (if starts_with sep [] then Some 0 else None)"
| "find_sub sep (x # xs) =
     (if starts_with sep (x # xs) then Some 0 else map_option Suc (find_sub sep xs))"

section \<open>Auxiliary facts\<close>

lemma lit_simps: "lit [] = []" "lit (c # cs) = of_char c # lit cs"
  by (simp_all add: lit_def)

lemma fold_send:
  "fold (\<lambda>header s. send s (header @ crlf)) headers s
     = s @ map (\<lambda>header. Send (header @ crlf)) headers"
  by (induction headers arbitrary: s) (simp_all add: send_def)

lemma HTTP_CODES_404: "HTTP_CODES 404 = Some (lit ''Not found'')"
  by (simp add: HTTP_CODES_def http_code_table_def)

lemma HTTP_CODES_200: "HTTP_CODES 200 = Some (lit ''Ok'')"
  by (simp add: HTTP_CODES_def http_code_table_def)

lemma HTTP_CODES_999: "HTTP_CODES 999 = None"
  by (simp add: HTTP_CODES_def http_code_table_def)

lemma str_int_404: "str_int 404 = lit ''404''"
  by (simp add: str_int_def str_nat.simps lit_simps)

lemma str_int_200: "str_int 200 = lit ''200''"
  by (simp add: str_int_def str_nat.simps lit_simps)

lemma str_int_3: "str_int 3 = lit ''3''"
  by (simp add: str_int_def str_nat.simps lit_simps)

lemma str_int_5: "str_int 5 = lit ''5''"
  by (simp add: str_int_def str_nat.simps lit_simps)

subsection \<open>Splitting\<close>

lemma split_not_Nil: "split sep s \<noteq> []"
  by (induction sep s rule: split.induct) (auto split: list.splits)

lemma split_no_sep: "c \<notin> set s \<Longrightarrow> split [c] s = [s]"
  by (induction s) auto

lemma split_first: "c \<notin> set k \<Longrightarrow> split [c] (k @ c # r) = k # split [c] r"
  by (induction k) auto

subsection \<open>Tokens of a query string\<close>

lemma fold_upd_other:
  "\<forall>u \<in> set post. f u \<noteq> k \<Longrightarrow> fold (\<lambda>t m. m(f t \<mapsto> g t)) post m k = m k"
  by (induction post arbitrary: m) auto

lemma query_param_no_eq: "ch CHR ''='' \<notin> set t \<Longrightarrow> query_param t = (t, [])"
  by (simp add: query_param_def lit_simps ch_def split_no_sep)

lemma query_param_one_eq:
  "ch CHR ''='' \<notin> set k \<Longrightarrow> ch CHR ''='' \<notin> set v \<Longrightarrow>
   query_param (k @ lit ''='' @ v) = (k, v)"
  by (simp add: query_param_def lit_simps ch_def split_first split_no_sep)

lemma query_param_two_eq:
  "ch CHR ''='' \<notin> set k \<Longrightarrow> ch CHR ''='' \<notin> set v \<Longrightarrow>
   query_param (k @ lit ''='' @ v @ lit ''='' @ r) = (k, v)"
  by (simp add: query_param_def lit_simps ch_def split_first Let_def)

lemma parse_query_string_fold:
  "qs \<noteq> [] \<Longrightarrow>
   parse_query_string (Str qs) =
     Inr (fold (\<lambda>t m. m(fst (query_param t) \<mapsto> snd (query_param t)))
            (split (lit ''&'') qs) Map.empty)"
  by (simp add: parse_query_string_def)

subsection \<open>The pattern of the body\<close>

lemma re_match_star_dot_Nil: "re_match (Star (Atom [CDot])) (i, [], c) = [(i, [], c)]"
  by (simp add: re_match.simps)

lemma re_match_star_dot_Cons:
  "re_match (Star (Atom [CDot])) (i, x # xs, c) =
     (if x \<noteq> LF then re_match (Star (Atom [CDot])) (Suc i, xs, c) @ [(i, x # xs, c)]
      else [(i, x # xs, c)])"
  by (subst re_match.simps(5)) (simp add: re_match.simps(1))

text \<open>The first alternative of \<^verbatim>\<open>.*\<close> takes every character up to the next line feed.\<close>

lemma re_match_star_dot_hd:
  "re_match (Star (Atom [CDot])) (i, s, c) \<noteq> [] \<and>
   hd (re_match (Star (Atom [CDot])) (i, s, c))
     = (i + length (takeWhile (\<lambda>x. x \<noteq> LF) s), dropWhile (\<lambda>x. x \<noteq> LF) s, c)"
proof (induction s arbitrary: i)
  case Nil
  show ?case by (simp add: re_match_star_dot_Nil)
next
  case (Cons x xs)
  show ?case
    using Cons [of "Suc i"] by (simp add: re_match_star_dot_Cons)
qed

lemma re_match_group_plus_dot:
  "re_match (Group n (Plus (Atom [CDot]))) (i, s, c) =
     (case s of
        [] \<Rightarrow> []
      | x # xs \<Rightarrow>
          if x \<noteq> LF
          then map (\<lambda>(j, s', c'). (j, s', c'(n \<mapsto> (i, j))))
                 (re_match (Star (Atom [CDot])) (Suc i, xs, c))
          else [])"
  by (cases s) (simp_all add: Plus_def re_match.simps(1,3,4))

lemma re_match_pat_body:
  "re_match pat_body (i, s, c) =
     (if starts_with (crlf @ crlf) s
      then re_match (Group 1 (Plus (Atom [CDot]))) (i + 4, drop 4 s, c)
      else [])"
proof -
  have one: "\<And>a R i s c. re_match (Seq (Atom [CChar a]) R) (i, s, c) =
      (case s of [] \<Rightarrow> [] | x # xs \<Rightarrow> if x = a then re_match R (Suc i, xs, c) else [])"
    by (simp add: re_match.simps(1,3) split: list.splits)
  show ?thesis
    by (simp add: pat_body_def one crlf_def starts_with_def eval_nat_numeral split: list.splits)
qed

lemma not_starts_with_Nil: "\<not> starts_with (crlf @ crlf) []"
  by (simp add: starts_with_def crlf_def)

lemma re_match_pat_body_caps:
  "re_match pat_body (i, s, c0) = (j, s', c) # rest \<Longrightarrow> c 1 \<noteq> None"
  by (auto simp: re_match_pat_body re_match_group_plus_dot map_eq_Cons_conv
      split: if_splits list.splits)

lemma search_from_pat_body_caps: "search_from pat_body i s = Some c \<Longrightarrow> c 1 \<noteq> None"
proof (induction s arbitrary: i)
  case Nil
  then show ?case
    by (auto simp: search_from.simps split: list.splits dest: re_match_pat_body_caps)
next
  case (Cons x xs)
  then show ?case
    by (auto simp: search_from.simps split: list.splits dest: re_match_pat_body_caps)
qed

lemma get_request_body_not_None: "get_request_body request \<noteq> PyNone"
  by (auto simp: get_request_body_def re_search_def group_def
      split: option.splits dest: search_from_pat_body_caps)

lemma search_from_pat_body_None:
  "find_sub (crlf @ crlf) s = None \<Longrightarrow> search_from pat_body i s = None"
proof (induction s arbitrary: i)
  case Nil
  then show ?case by (simp add: search_from.simps re_match_pat_body not_starts_with_Nil)
next
  case (Cons x xs)
  from Cons.prems have "\<not> starts_with (crlf @ crlf) (x # xs)"
    and "find_sub (crlf @ crlf) xs = None"
    by (simp_all split: if_splits)
  with Cons.IH [of "Suc i"] show ?case
    by (simp add: search_from.simps re_match_pat_body)
qed

lemma search_from_pat_body_Some:
  "find_sub (crlf @ crlf) s = Some n \<Longrightarrow> drop (n + 4) s = b # bs \<Longrightarrow> b \<noteq> LF \<Longrightarrow>
   search_from pat_body i s =
     Some [1 \<mapsto> (i + n + 4, i + n + 4 + length (takeWhile (\<lambda>x. x \<noteq> LF) (b # bs)))]"
proof (induction s arbitrary: i n)
  case Nil
  then show ?case by (simp add: not_starts_with_Nil)
next
  case (Cons x xs)
  show ?case
  proof (cases "starts_with (crlf @ crlf) (x # xs)")
    case True
    with Cons.prems have n: "n = 0"
      by simp
    with Cons.prems have d: "drop 4 (x # xs) = b # bs"
      by simp
    obtain j s' where h: "hd (re_match (Star (Atom [CDot])) (Suc (i + 4), bs, Map.empty))
        = (j, s', Map.empty)"
      and j: "j = Suc (i + 4) + length (takeWhile (\<lambda>x. x \<noteq> LF) bs)"
      and ne: "re_match (Star (Atom [CDot])) (Suc (i + 4), bs, Map.empty) \<noteq> []"
      using re_match_star_dot_hd [of "Suc (i + 4)" bs Map.empty] by simp
    from ne obtain r where r: "re_match (Star (Atom [CDot])) (Suc (i + 4), bs, Map.empty)
        = (j, s', Map.empty) # r"
      using h by (cases "re_match (Star (Atom [CDot])) (Suc (i + 4), bs, Map.empty)") auto
    have "re_match pat_body (i, x # xs, Map.empty)
        = map (\<lambda>(j, s', c'). (j, s', c'(1 \<mapsto> (i + 4, j)))) ((j, s', Map.empty) # r)"
      using True Cons.prems(3) r by (simp only: re_match_pat_body d re_match_group_plus_dot) simp
    then show ?thesis
      using Cons.prems(3) j n by (simp add: search_from.simps fun_eq_iff)
  next
    case False
    with Cons.prems obtain n' where n': "find_sub (crlf @ crlf) xs = Some n'" "n = Suc n'"
      by auto
    with Cons.prems(2) have "drop (n' + 4) xs = b # bs"
      by (simp add: eval_nat_numeral)
    from Cons.IH [OF n'(1) this Cons.prems(3), of "Suc i"] False n'(2)
    show ?thesis
      by (simp add: search_from.simps re_match_pat_body)
  qed
qed

lemma get_request_body_no_separator:
  "find_sub (crlf @ crlf) request = None \<Longrightarrow> get_request_body request = EmptyDict"
  by (simp add: get_request_body_def re_search_def search_from_pat_body_None)

text \<open>
  When the first separator is followed by a character other than the line feed,
  the body is what follows up to the next line feed.
\<close>

lemma get_request_body_line:
  assumes "find_sub (crlf @ crlf) request = Some n"
    and "drop (n + 4) request = b # bs" and "b \<noteq> LF"
  shows "get_request_body request = Str (takeWhile (\<lambda>x. x \<noteq> LF) (b # bs))"
proof -
  have "take (length (takeWhile (\<lambda>x. x \<noteq> LF) (b # bs))) (b # bs)
      = takeWhile (\<lambda>x. x \<noteq> LF) (b # bs)"
    by (rule takeWhile_eq_take [symmetric])
  with assms(2) show ?thesis
    using search_from_pat_body_Some [OF assms, of 0]
    by (simp add: get_request_body_def re_search_def group_def del: takeWhile.simps)
qed

lemma parse_query_string_total:
  "v \<noteq> PyNone \<Longrightarrow> \<exists>d. parse_query_string v = Inr d"
  by (cases v) (simp_all add: parse_query_string_def)

lemmas re_eval = re_search_def search_from.simps re_match.simps group_def Plus_def upper_def
  ch_def is_space_def LF_def CR_def crlf_def lit_simps

section \<open>The response formatter\<close>

text \<open>
  C6. \<^verbatim>\<open>send_response(transport, "hi", 404)\<close> with the default content type and no
  extra headers hands to the transport, after whatever it has received before,
  exactly four texts in this order: the status line
  \<^verbatim>\<open>HTTP/1.0 404 Not found\r\n\<close>, the header \<^verbatim>\<open>Content-Type:text/html\r\n\<close>, the
  blank line \<^verbatim>\<open>\r\n\<close> and the body \<^verbatim>\<open>hi\<close>; and it returns without an exception.
\<close>

theorem send_response_404_hi:
  "send_response server (lit ''hi'') 404 default_content_type None =
     (None, server @ [Send (lit ''HTTP/1.0 404 Not found'' @ crlf),
                      Send (lit ''Content-Type:text/html'' @ crlf),
                      Send crlf,
                      Send (lit ''hi'')])"
  by (simp add: send_response_def HTTP_CODES_404 str_int_404 default_content_type_def
      send_def lit_simps)

text \<open>
  C10. For every status code that is not a key of \<^verbatim>\<open>HTTP_CODES\<close>, \<^verbatim>\<open>send_response\<close>
  raises (a \<^verbatim>\<open>TypeError\<close>, from adding \<^verbatim>\<open>None\<close> to a string) before any send
  operation of the transport is invoked: the transport is left as it was.
\<close>

theorem send_response_unknown_code:
  assumes "http_code \<notin> dom HTTP_CODES"
  shows "send_response server response http_code content_type extend_headers
           = (Some TypeError, server)"
proof -
  from assms have "HTTP_CODES http_code = None"
    by (simp add: domIff)
  then show ?thesis
    by (simp add: send_response_def)
qed

theorem send_response_unknown_code_witness:
  "999 \<notin> dom HTTP_CODES \<and>
   send_response [] (lit ''hi'') 999 default_content_type None = (Some TypeError, [])"
proof -
  have h: "999 \<notin> dom HTTP_CODES"
    by (simp add: domIff HTTP_CODES_999)
  from send_response_unknown_code [OF h] h show ?thesis
    by simp
qed

text \<open>
  C5, as the code has it. \<^verbatim>\<open>send_binary_response\<close> does not measure the body: for
  a status code of the table it sends the status line, the content type, then
  \<^verbatim>\<open>Content-Length:\<close> followed by the decimal form of the \<^verbatim>\<open>file_size\<close> argument,
  the extra headers, the blank line, and the body through \<^verbatim>\<open>send_binary\<close>. The
  header states the number of bytes written when the caller passes the length of
  the body as \<^verbatim>\<open>file_size\<close>.
\<close>

theorem send_binary_response_content_length:
  assumes "HTTP_CODES http_code = Some reason"
  shows "send_binary_response server response file_size http_code content_type extend_headers =
     (None,
      server @
      [Send (lit ''HTTP/1.0 '' @ str_int http_code @ lit '' '' @ reason @ crlf),
       Send (lit ''Content-Type:'' @ content_type @ crlf),
       Send (lit ''Content-Length:'' @ str_int file_size @ crlf)] @
      map (\<lambda>header. Send (header @ crlf))
          (case extend_headers of None \<Rightarrow> [] | Some headers \<Rightarrow> headers) @
      [Send crlf, SendBinary response])"
proof -
  have "send_binary_response server response file_size http_code content_type extend_headers =
     (None,
      send_binary
        (send (fold (\<lambda>header s. send s (header @ crlf))
                 (case extend_headers of None \<Rightarrow> [] | Some headers \<Rightarrow> headers)
                 (send (send (send server
                    (lit ''HTTP/1.0 '' @ str_int http_code @ lit '' '' @ reason @ crlf))
                    (lit ''Content-Type:'' @ content_type @ crlf))
                    (lit ''Content-Length:'' @ str_int file_size @ crlf)))
              crlf)
        response)"
    using assms by (cases extend_headers) (simp_all add: send_binary_response_def)
  then show ?thesis
    by (simp add: fold_send) (simp add: send_def send_binary_def)
qed

theorem send_binary_response_content_length_witness:
  "HTTP_CODES 200 = Some (lit ''Ok'') \<and>
   send_binary_response [] [1, 2, 3] (int (length [1, 2, 3 :: nat])) 200
       default_binary_content_type None =
     (None,
      [Send (lit ''HTTP/1.0 200 Ok'' @ crlf),
       Send (lit ''Content-Type:application/octet-stream'' @ crlf),
       Send (lit ''Content-Length:3'' @ crlf),
       Send crlf, SendBinary [1, 2, 3]])"
  using send_binary_response_content_length [OF HTTP_CODES_200, of "[]" "[1, 2, 3]" 3
      default_binary_content_type None]
  by (simp add: HTTP_CODES_200 str_int_200 str_int_3 default_binary_content_type_def lit_simps)

text \<open>
  The claim as the specification words it fails: with a body of three bytes and
  \<^verbatim>\<open>file_size = 5\<close> the header says 5.
\<close>

theorem send_binary_response_content_length_counterexample:
  "send_binary_response [] [1, 2, 3] 5 200 default_binary_content_type None =
     (None,
      [Send (lit ''HTTP/1.0 200 Ok'' @ crlf),
       Send (lit ''Content-Type:application/octet-stream'' @ crlf),
       Send (lit ''Content-Length:5'' @ crlf),
       Send crlf, SendBinary [1, 2, 3]]) \<and>
   int (length [1, 2, 3 :: nat]) \<noteq> 5"
  by (simp add: send_binary_response_def HTTP_CODES_200 str_int_200 str_int_5
      default_binary_content_type_def send_def send_binary_def lit_simps)

section \<open>The parameter parser\<close>

text \<open>
  C7. \<^verbatim>\<open>parse_query_string("")\<close> is the empty mapping;
  \<^verbatim>\<open>parse_query_string("a=1&b=2")\<close> maps \<^verbatim>\<open>a\<close> to \<^verbatim>\<open>1\<close> and \<^verbatim>\<open>b\<close> to \<^verbatim>\<open>2\<close>; a token
  without \<^verbatim>\<open>=\<close> gets the empty string as its value (\<^verbatim>\<open>"flag"\<close> gives
  \<^verbatim>\<open>{"flag": ""}\<close>); and the last occurrence of a repeated key wins
  (\<^verbatim>\<open>"a=1&a=2"\<close> gives \<^verbatim>\<open>{"a": "2"}\<close>): whenever no token after \<open>t\<close> has the key of
  \<open>t\<close>, the mapping gives that key the value of \<open>t\<close>.
\<close>

theorem parse_query_string_examples:
  "parse_query_string (Str []) = Inr Map.empty \<and>
   parse_query_string (Str (lit ''a=1&b=2''))
     = Inr [lit ''a'' \<mapsto> lit ''1'', lit ''b'' \<mapsto> lit ''2''] \<and>
   parse_query_string (Str (lit ''flag'')) = Inr [lit ''flag'' \<mapsto> []] \<and>
   (\<forall>t. ch CHR ''='' \<notin> set t \<longrightarrow> query_param t = (t, [])) \<and>
   parse_query_string (Str (lit ''a=1&a=2'')) = Inr [lit ''a'' \<mapsto> lit ''2''] \<and>
   (\<forall>qs pre t post.
      qs \<noteq> [] \<and> split (lit ''&'') qs = pre @ t # post \<and>
      (\<forall>u \<in> set post. fst (query_param u) \<noteq> fst (query_param t)) \<longrightarrow>
      (\<exists>d. parse_query_string (Str qs) = Inr d \<and>
           d (fst (query_param t)) = Some (snd (query_param t))))"
proof (intro conjI allI impI)
  show "parse_query_string (Str []) = Inr Map.empty"
    by (simp add: parse_query_string_def)
  show "parse_query_string (Str (lit ''a=1&b=2''))
          = Inr [lit ''a'' \<mapsto> lit ''1'', lit ''b'' \<mapsto> lit ''2'']"
    by (simp add: parse_query_string_def query_param_def lit_simps)
  show "parse_query_string (Str (lit ''flag'')) = Inr [lit ''flag'' \<mapsto> []]"
    by (simp add: parse_query_string_def query_param_def lit_simps)
  show "parse_query_string (Str (lit ''a=1&a=2'')) = Inr [lit ''a'' \<mapsto> lit ''2'']"
    by (simp add: parse_query_string_def query_param_def lit_simps)
next
  fix t :: pystr
  assume "ch CHR ''='' \<notin> set t"
  then show "query_param t = (t, [])"
    by (simp add: query_param_no_eq)
next
  fix qs t :: pystr and pre post :: "pystr list"
  assume a: "qs \<noteq> [] \<and> split (lit ''&'') qs = pre @ t # post \<and>
    (\<forall>u \<in> set post. fst (query_param u) \<noteq> fst (query_param t))"
  let ?d = "fold (\<lambda>t m. m(fst (query_param t) \<mapsto> snd (query_param t)))
              (pre @ t # post) Map.empty"
  from a have "parse_query_string (Str qs) = Inr ?d"
    by (simp add: parse_query_string_fold)
  moreover from a have "?d (fst (query_param t)) = Some (snd (query_param t))"
    by (simp add: fold_upd_other)
  ultimately show "\<exists>d. parse_query_string (Str qs) = Inr d \<and>
      d (fst (query_param t)) = Some (snd (query_param t))"
    by blast
qed

theorem parse_query_string_examples_witness:
  "split (lit ''&'') (lit ''x=1&y=2&x=3'') = [lit ''x=1'', lit ''y=2''] @ lit ''x=3'' # []
   \<and> query_param (lit ''x=3'') = (lit ''x'', lit ''3'')
   \<and> (\<exists>d. parse_query_string (Str (lit ''x=1&y=2&x=3'')) = Inr d \<and> d (lit ''x'') = Some (lit ''3''))"
proof -
  have s: "split (lit ''&'') (lit ''x=1&y=2&x=3'') = [lit ''x=1'', lit ''y=2''] @ lit ''x=3'' # []"
    by (simp add: lit_simps)
  have q: "query_param (lit ''x=3'') = (lit ''x'', lit ''3'')"
    by (simp add: query_param_def lit_simps)
  have n: "lit ''x=1&y=2&x=3'' \<noteq> []"
    by (simp add: lit_simps)
  from parse_query_string_examples have
    "\<forall>qs pre t post.
      qs \<noteq> [] \<and> split (lit ''&'') qs = pre @ t # post \<and>
      (\<forall>u \<in> set post. fst (query_param u) \<noteq> fst (query_param t)) \<longrightarrow>
      (\<exists>d. parse_query_string (Str qs) = Inr d \<and>
           d (fst (query_param t)) = Some (snd (query_param t)))"
    by blast
  from this [rule_format, of "lit ''x=1&y=2&x=3''" "[lit ''x=1'', lit ''y=2'']" "lit ''x=3''" "[]"] s q n
  have "\<exists>d. parse_query_string (Str (lit ''x=1&y=2&x=3'')) = Inr d \<and> d (lit ''x'') = Some (lit ''3'')"
    by simp
  with s q show ?thesis
    by blast
qed

text \<open>
  C4, as the code has it. A token is split at every \<^verbatim>\<open>=\<close>, and the value is the
  second piece: for a token \<^verbatim>\<open>key=v=rest\<close> the mapping gives \<^verbatim>\<open>key\<close> the text \<open>v\<close>
  between the first and the second \<^verbatim>\<open>=\<close>, whatever \<open>rest\<close> is; for a token
  \<^verbatim>\<open>key=v\<close> with a single \<^verbatim>\<open>=\<close> it gives \<^verbatim>\<open>key\<close> all that follows the \<^verbatim>\<open>=\<close>.
\<close>

theorem parse_query_string_value_up_to_second_eq:
  assumes "ch CHR ''='' \<notin> set key" and "ch CHR ''='' \<notin> set v"
  shows "query_param (key @ lit ''='' @ v) = (key, v) \<and>
         query_param (key @ lit ''='' @ v @ lit ''='' @ rest) = (key, v) \<and>
         (ch CHR ''&'' \<notin> set (key @ v @ rest) \<longrightarrow>
            parse_query_string (Str (key @ lit ''='' @ v @ lit ''='' @ rest)) = Inr [key \<mapsto> v])"
proof (intro conjI impI)
  from assms show "query_param (key @ lit ''='' @ v) = (key, v)"
    by (rule query_param_one_eq)
  from assms show q: "query_param (key @ lit ''='' @ v @ lit ''='' @ rest) = (key, v)"
    by (rule query_param_two_eq)
  assume "ch CHR ''&'' \<notin> set (key @ v @ rest)"
  then have "ch CHR ''&'' \<notin> set (key @ lit ''='' @ v @ lit ''='' @ rest)"
    by (simp add: lit_simps ch_def)
  then have "split (lit ''&'') (key @ lit ''='' @ v @ lit ''='' @ rest)
               = [key @ lit ''='' @ v @ lit ''='' @ rest]"
    using split_no_sep [of "ch CHR ''&''"] by (simp add: lit_simps ch_def)
  then show "parse_query_string (Str (key @ lit ''='' @ v @ lit ''='' @ rest)) = Inr [key \<mapsto> v]"
    using q by (simp add: parse_query_string_def lit_simps)
qed

theorem parse_query_string_value_up_to_second_eq_witness:
  "ch CHR ''='' \<notin> set (lit ''t'') \<and> ch CHR ''='' \<notin> set (lit ''YQ'') \<and>
   ch CHR ''&'' \<notin> set (lit ''t'' @ lit ''YQ'' @ lit ''='') \<and>
   parse_query_string (Str (lit ''t=YQ=='')) = Inr [lit ''t'' \<mapsto> lit ''YQ'']"
proof -
  have a: "ch CHR ''='' \<notin> set (lit ''t'')" and b: "ch CHR ''='' \<notin> set (lit ''YQ'')"
    and c: "ch CHR ''&'' \<notin> set (lit ''t'' @ lit ''YQ'' @ lit ''='')"
    by (simp_all add: lit_simps ch_def)
  from parse_query_string_value_up_to_second_eq [OF a b, of "lit ''=''"] c
  have "parse_query_string (Str (lit ''t'' @ lit ''='' @ lit ''YQ'' @ lit ''='' @ lit ''=''))
          = Inr [lit ''t'' \<mapsto> lit ''YQ'']"
    by blast
  then have "parse_query_string (Str (lit ''t=YQ=='')) = Inr [lit ''t'' \<mapsto> lit ''YQ'']"
    by (simp add: lit_simps)
  with a b c show ?thesis
    by blast
qed

text \<open>
  The claim as the specification words it fails: for \<^verbatim>\<open>a=b=c\<close> the value of \<^verbatim>\<open>a\<close>
  is \<^verbatim>\<open>b\<close>, not \<^verbatim>\<open>b=c\<close>.
\<close>

theorem parse_query_string_value_counterexample:
  "parse_query_string (Str (lit ''a=b=c'')) = Inr [lit ''a'' \<mapsto> lit ''b''] \<and>
   lit ''b'' \<noteq> lit ''b=c''"
  by (simp add: parse_query_string_def query_param_def lit_simps)

section \<open>The request parser\<close>

text \<open>
  C1, on the code. For every request that starts with the line
  \<^verbatim>\<open>GET /a/b?x=1 HTTP/1.0\<close>, the method is \<^verbatim>\<open>GET\<close> and the query string is \<^verbatim>\<open>x=1\<close>,
  as claimed; the path, however, is \<^verbatim>\<open>/b\<close>, the last segment, and not \<^verbatim>\<open>/a/b\<close>: the
  group of the pattern stands inside the repetition and keeps its last iteration.
\<close>

theorem request_line_multi_segment:
  "get_request_method (lit ''GET /a/b?x=1 HTTP/1.0'' @ crlf @ rest) = Inr (Str (lit ''GET'')) \<and>
   get_request_path (lit ''GET /a/b?x=1 HTTP/1.0'' @ crlf @ rest) = Inr (Str (lit ''/b'')) \<and>
   get_request_query_string (lit ''GET /a/b?x=1 HTTP/1.0'' @ crlf @ rest) = Str (lit ''x=1'')"
proof -
  have line: "first_line (lit ''GET /a/b?x=1 HTTP/1.0'' @ crlf @ rest)
                = lit ''GET /a/b?x=1 HTTP/1.0''"
    by (simp add: first_line_def lit_simps crlf_def CR_def LF_def)
  have "get_request_method (lit ''GET /a/b?x=1 HTTP/1.0'' @ crlf @ rest) = Inr (Str (lit ''GET''))"
    unfolding get_request_method_def line by (simp add: re_eval pat_method_def)
  moreover
  have "get_request_path (lit ''GET /a/b?x=1 HTTP/1.0'' @ crlf @ rest) = Inr (Str (lit ''/b''))"
    unfolding get_request_path_def line by (simp add: re_eval pat_path_def)
  moreover
  have "get_request_query_string (lit ''GET /a/b?x=1 HTTP/1.0'' @ crlf @ rest) = Str (lit ''x=1'')"
    unfolding get_request_query_string_def line by (simp add: re_eval pat_query_def)
  ultimately show ?thesis
    by blast
qed

text \<open>
  C3, as the code has it. A buffer without the separator \<^verbatim>\<open>\r\n\r\n\<close> gives the
  empty dictionary. When what follows the first separator is not empty and has no
  line feed in it, \<^verbatim>\<open>get_request_body\<close> returns all of it.
\<close>

theorem get_request_body_after_separator:
  "(find_sub (crlf @ crlf) request = None \<longrightarrow> get_request_body request = EmptyDict) \<and>
   (\<forall>n. find_sub (crlf @ crlf) request = Some n \<and> drop (n + 4) request \<noteq> [] \<and>
        LF \<notin> set (drop (n + 4) request) \<longrightarrow>
        get_request_body request = Str (drop (n + 4) request))"
proof (intro conjI allI impI)
  assume "find_sub (crlf @ crlf) request = None"
  then show "get_request_body request = EmptyDict"
    by (rule get_request_body_no_separator)
next
  fix n
  assume a: "find_sub (crlf @ crlf) request = Some n \<and> drop (n + 4) request \<noteq> [] \<and>
    LF \<notin> set (drop (n + 4) request)"
  then obtain b bs where d: "drop (n + 4) request = b # bs"
    by (cases "drop (n + 4) request") auto
  with a have "b \<noteq> LF" and all: "\<forall>x \<in> set (b # bs). x \<noteq> LF"
    by auto
  with a d have "get_request_body request = Str (takeWhile (\<lambda>x. x \<noteq> LF) (b # bs))"
    by (simp add: get_request_body_line del: takeWhile.simps)
  also from all have "takeWhile (\<lambda>x. x \<noteq> LF) (b # bs) = b # bs"
    by (simp only: takeWhile_eq_all_conv)
  finally show "get_request_body request = Str (drop (n + 4) request)"
    using d by simp
qed

theorem get_request_body_after_separator_witness:
  "find_sub (crlf @ crlf) (lit ''GET / HTTP/1.0'' @ crlf) = None \<and>
   get_request_body (lit ''GET / HTTP/1.0'' @ crlf) = EmptyDict \<and>
   find_sub (crlf @ crlf) (lit ''POST /f HTTP/1.0'' @ crlf @ crlf @ lit ''a=1&b=2'') = Some 16 \<and>
   get_request_body (lit ''POST /f HTTP/1.0'' @ crlf @ crlf @ lit ''a=1&b=2'') = Str (lit ''a=1&b=2'')"
proof -
  let ?g = "lit ''GET / HTTP/1.0'' @ crlf"
  let ?p = "lit ''POST /f HTTP/1.0'' @ crlf @ crlf @ lit ''a=1&b=2''"
  have g: "find_sub (crlf @ crlf) ?g = None"
    by (simp add: lit_simps crlf_def CR_def LF_def starts_with_def)
  have p: "find_sub (crlf @ crlf) ?p = Some 16"
    by (simp add: lit_simps crlf_def CR_def LF_def starts_with_def)
  have d: "drop (16 + 4) ?p = lit ''a=1&b=2''"
    by (simp add: lit_simps crlf_def)
  have l: "LF \<notin> set (lit ''a=1&b=2'')" "lit ''a=1&b=2'' \<noteq> []"
    by (simp_all add: lit_simps LF_def)
  from get_request_body_after_separator [of ?g] g
  have 1: "get_request_body ?g = EmptyDict"
    by blast
  from get_request_body_after_separator [of ?p] p d l
  have 2: "get_request_body ?p = Str (lit ''a=1&b=2'')"
    by (metis (no_types, lifting))
  from g p 1 2 show ?thesis
    by blast
qed

text \<open>
  The claim as the specification words it fails. A buffer that ends with the
  separator has the empty text after it, and the result is the empty dictionary,
  not the empty text; and of a body of two lines only the first line is returned
  (with the carriage return that ends it).
\<close>

theorem get_request_body_counterexample:
  "find_sub (crlf @ crlf) (lit ''GET / HTTP/1.0'' @ crlf @ crlf) = Some 14 \<and>
   drop (14 + 4) (lit ''GET / HTTP/1.0'' @ crlf @ crlf) = [] \<and>
   get_request_body (lit ''GET / HTTP/1.0'' @ crlf @ crlf) = EmptyDict \<and>
   get_request_body (lit ''POST / HTTP/1.0'' @ crlf @ crlf @ lit ''a=1'' @ crlf @ lit ''b=2'')
     = Str (lit ''a=1'' @ [CR])"
proof -
  have "find_sub (crlf @ crlf) (lit ''GET / HTTP/1.0'' @ crlf @ crlf) = Some 14"
    by (simp add: lit_simps crlf_def CR_def LF_def starts_with_def)
  moreover have "drop (14 + 4) (lit ''GET / HTTP/1.0'' @ crlf @ crlf) = []"
    by (simp add: lit_simps crlf_def)
  moreover have "get_request_body (lit ''GET / HTTP/1.0'' @ crlf @ crlf) = EmptyDict"
    by (simp add: get_request_body_def re_eval pat_body_def)
  moreover have "get_request_body
      (lit ''POST / HTTP/1.0'' @ crlf @ crlf @ lit ''a=1'' @ crlf @ lit ''b=2'')
     = Str (lit ''a=1'' @ [CR])"
    by (simp add: get_request_body_def re_eval pat_body_def)
  ultimately show ?thesis
    by blast
qed

text \<open>
  C8. When the request has a method, \<^verbatim>\<open>get_request_post_params\<close> returns \<^verbatim>\<open>None\<close>
  exactly when that method differs from \<^verbatim>\<open>expected_method\<close>; when the two are equal
  it returns the mapping that \<^verbatim>\<open>parse_query_string\<close> makes of the body, and this
  parse never fails.
\<close>

theorem get_request_post_params_method:
  assumes "get_request_method request = Inr m"
  shows "(get_request_post_params request expected_method = Inr None \<longleftrightarrow> m \<noteq> expected_method) \<and>
         (m = expected_method \<longrightarrow>
            (\<exists>d. parse_query_string (get_request_body request) = Inr d \<and>
                 get_request_post_params request expected_method = Inr (Some d)))"
proof -
  obtain d where d: "parse_query_string (get_request_body request) = Inr d"
    using parse_query_string_total [OF get_request_body_not_None] by blast
  with assms show ?thesis
    by (simp add: get_request_post_params_def)
qed

theorem get_request_post_params_method_witness:
  "get_request_method (lit ''POST /f HTTP/1.0'' @ crlf @ crlf @ lit ''a=1'') = Inr (Str (lit ''POST'')) \<and>
   get_request_post_params (lit ''POST /f HTTP/1.0'' @ crlf @ crlf @ lit ''a=1'')
       default_expected_method = Inr (Some [lit ''a'' \<mapsto> lit ''1'']) \<and>
   get_request_post_params (lit ''POST /f HTTP/1.0'' @ crlf @ crlf @ lit ''a=1'')
       (Str (lit ''GET'')) = Inr None"
proof -
  let ?r = "lit ''POST /f HTTP/1.0'' @ crlf @ crlf @ lit ''a=1''"
  have line: "first_line ?r = lit ''POST /f HTTP/1.0''"
    by (simp add: first_line_def lit_simps crlf_def CR_def LF_def)
  have m: "get_request_method ?r = Inr (Str (lit ''POST''))"
    unfolding get_request_method_def line by (simp add: re_eval pat_method_def)
  have b: "get_request_body ?r = Str (lit ''a=1'')"
    by (simp add: get_request_body_def re_eval pat_body_def)
  have q: "parse_query_string (Str (lit ''a=1'')) = Inr [lit ''a'' \<mapsto> lit ''1'']"
    by (simp add: parse_query_string_def query_param_def lit_simps)
  have ne: "Str (lit ''POST'') \<noteq> Str (lit ''GET'')"
    by (simp add: lit_simps)
  from get_request_post_params_method [OF m, of default_expected_method] b q
  have 1: "get_request_post_params ?r default_expected_method = Inr (Some [lit ''a'' \<mapsto> lit ''1''])"
    by (simp add: default_expected_method_def)
  from get_request_post_params_method [OF m, of "Str (lit ''GET'')"] ne
  have 2: "get_request_post_params ?r (Str (lit ''GET'')) = Inr None"
    by blast
  from m 1 2 show ?thesis
    by blast
qed

text \<open>Without a method the exception of \<^verbatim>\<open>get_request_method\<close> leaves the function.\<close>

lemma get_request_post_params_no_method:
  "get_request_method request = Inl e \<Longrightarrow> get_request_post_params request expected_method = Inl e"
  by (simp add: get_request_post_params_def)

section \<open>The percent decoder\<close>

lemma utf8_encode_ascii: "\<forall>c \<in> set s. c < 128 \<Longrightarrow> utf8_encode s = Inr s"
  by (induction s) (simp_all add: utf8_encode_cp_def)

lemma utf8_decode_ascii: "\<forall>c \<in> set s. c < 128 \<Longrightarrow> utf8_decode s = Inr s"
  by (induction s) (simp_all add: cons_ok_def)

text \<open>
  C9. For every ASCII string \<open>s\<close> without \<^verbatim>\<open>%\<close> (empty or not), \<^verbatim>\<open>unquote(s)\<close> returns
  \<open>s\<close>.
\<close>

theorem unquote_identity:
  assumes "\<forall>c \<in> set s. c < 128" and "ch CHR ''%'' \<notin> set s"
  shows "unquote s = Inr s"
proof (cases "s = []")
  case True
  then show ?thesis
    by (simp add: unquote_def)
next
  case False
  from assms(2) have "split [ch CHR ''%''] s = [s]"
    by (rule split_no_sep)
  with False assms(1) show ?thesis
    by (simp add: unquote_def utf8_encode_ascii utf8_decode_ascii)
qed

theorem unquote_identity_witness:
  "list_all (\<lambda>c. c < 128) (lit ''abc'') \<and> ch CHR ''%'' \<notin> set (lit ''abc'') \<and>
   unquote (lit ''abc'') = Inr (lit ''abc'')"
proof -
  have a: "\<forall>c \<in> set (lit ''abc''). c < 128" and b: "ch CHR ''%'' \<notin> set (lit ''abc'')"
    by (simp_all add: lit_simps ch_def)
  from unquote_identity [OF a b] a b show ?thesis
    by (simp add: list_all_iff)
qed

text \<open>
  C2, on the code. A \<^verbatim>\<open>%\<close> that is not followed by two hexadecimal digits does not
  make \<^verbatim>\<open>unquote\<close> keep the text: \<^verbatim>\<open>int\<close> raises \<^verbatim>\<open>ValueError\<close>, which the handler
  for \<^verbatim>\<open>KeyError\<close> does not catch, so \<^verbatim>\<open>unquote("%zz")\<close> and \<^verbatim>\<open>unquote("%")\<close> raise;
  and \<^verbatim>\<open>unquote("%4")\<close> reads the single digit as the byte 4.
\<close>

theorem unquote_malformed_escape:
  "unquote (lit ''%zz'') = Inl ValueError \<and>
   unquote (lit ''%'') = Inl ValueError \<and>
   unquote (lit ''%4'') = Inr [4]"
proof -
  have i: "py_int16 [122, 122] = Inl ValueError" "py_int16 [] = Inl ValueError"
    "py_int16 [52] = Inr 4"
    by (simp_all add: py_int16_def is_bspace_def in_number_def hex_digit_def)
  have "unquote (lit ''%zz'') = Inl ValueError"
    using i(1) by (simp add: unquote_def utf8_encode_cp_def ch_def unquote_item_def lit_simps)
  moreover have "unquote (lit ''%'') = Inl ValueError"
    using i(2) by (simp add: unquote_def utf8_encode_cp_def ch_def unquote_item_def lit_simps)
  moreover have "unquote (lit ''%4'') = Inr [4]"
    using i(3) by (simp add: unquote_def utf8_encode_cp_def ch_def unquote_item_def bytearray_append_def
        cons_ok_def lit_simps)
  ultimately show ?thesis
    by blast
qed

end
